theory Spec2Isabelle
  imports Complex_Main "HOL-Library.AList" "HOL-Library.Multiset"
begin

section \<open>Values exchanged with the gateway\<close>

text \<open>
  The module \<^verbatim>\<open>llm_openrouter.py\<close> talks to an HTTP gateway with the \<^verbatim>\<open>requests\<close>
  library. A parsed JSON document is a Python value built from \<^verbatim>\<open>None\<close>, booleans,
  numbers, strings, lists and dictionaries. A dictionary is an association list with
  distinct keys, read with \<open>map_of\<close>. Python floats are modelled by \<open>real\<close>: no claim
  below depends on rounding, and the non-numbers of IEEE arithmetic are left out.
\<close>

datatype json =
    JNull
  | JBool bool
  | JInt int
  | JFloat real
  | JStr string
  | JArr "json list"
  | JObj "(string \<times> json) list"

datatype http_method = GET | POST

record request =
  verb :: http_method
  url :: string
  headers :: "(string \<times> string) list"
  json_body :: "json option"
  timeout :: int

text \<open>
  Of a response the code reads the status code, the reason phrase and the result of
  \<^verbatim>\<open>.json()\<close>; \<open>body = None\<close> is a body that is not JSON, where \<^verbatim>\<open>.json()\<close> raises.
\<close>

record http_response =
  status_code :: int
  reason :: string
  body :: "json option"

text \<open>
  The failures of \<^verbatim>\<open>requests.get\<close> and \<^verbatim>\<open>requests.post\<close> themselves: all of them are
  subclasses of \<^verbatim>\<open>requests.exceptions.RequestException\<close>.
\<close>

datatype transport_failure = ConnectionError | Timeout | TooManyRedirects

text \<open>
  Every exception of the source is a value. \<open>IllTyped f\<close> is not a Python exception: the
  dataclasses are records typed by their annotations, Python stores whatever the gateway
  sent, and \<open>IllTyped f\<close> stands for the object Python returns with a value of
  another type in field \<open>f\<close>. It is produced only after every access that can raise has
  succeeded; \<open>raised\<close> tells the exceptions from it.
\<close>

datatype error =
    EnvironmentError string
  | RequestException transport_failure
  | HTTPError string http_response
  | JSONDecodeError
  | KeyError string
  | IndexError
  | TypeError
  | AttributeError
  | ValueError
  | IllTyped string

fun raised :: "error \<Rightarrow> bool" where
  "raised (IllTyped f) = False"
| "raised e = True"

text \<open>Whether a call ended with an exception, and not with a returned object.\<close>

definition raises :: "error + 'a \<Rightarrow> bool" where
  "raises r = (case r of Inl e \<Rightarrow> raised e | Inr v \<Rightarrow> False)"

definition and_then :: "error + 'a \<Rightarrow> ('a \<Rightarrow> error + 'b) \<Rightarrow> error + 'b" where
  "and_then r f = (case r of Inl e \<Rightarrow> Inl e | Inr v \<Rightarrow> f v)"

subsection \<open>Python's accesses to a parsed document\<close>

text \<open>\<^verbatim>\<open>x[k]\<close> for a string key \<open>k\<close>: only a dictionary has string keys.\<close>

fun getitem :: "json \<Rightarrow> string \<Rightarrow> error + json" where
  "getitem (JObj kvs) k = (case map_of kvs k of None \<Rightarrow> Inl (KeyError k) | Some v \<Rightarrow> Inr v)"
| "getitem _ k = Inl TypeError"

text \<open>\<^verbatim>\<open>x[0]\<close>: a dictionary parsed from JSON has no integer key.\<close>

fun getitem0 :: "json \<Rightarrow> error + json" where
  "getitem0 (JArr []) = Inl IndexError"
| "getitem0 (JArr (x # xs)) = Inr x"
| "getitem0 (JStr []) = Inl IndexError"
| "getitem0 (JStr (c # cs)) = Inr (JStr [c])"
| "getitem0 (JObj kvs) = Inl (KeyError ''0'')"
| "getitem0 _ = Inl TypeError"

text \<open>\<^verbatim>\<open>x.get(k, d)\<close>: a method of dictionaries only.\<close>

fun get_default :: "json \<Rightarrow> string \<Rightarrow> json \<Rightarrow> error + json" where
  "get_default (JObj kvs) k d = (case map_of kvs k of None \<Rightarrow> Inr d | Some v \<Rightarrow> Inr v)"
| "get_default _ k d = Inl AttributeError"

text \<open>\<^verbatim>\<open>for item in x\<close>.\<close>

fun iterate :: "json \<Rightarrow> error + json list" where
  "iterate (JArr xs) = Inr xs"
| "iterate (JObj kvs) = Inr (map (\<lambda>kv. JStr (fst kv)) kvs)"
| "iterate (JStr s) = Inr (map (\<lambda>c. JStr [c]) s)"
| "iterate _ = Inl TypeError"

text \<open>Reading a stored value at the type its field is annotated with.\<close>

fun as_str :: "string \<Rightarrow> json \<Rightarrow> error + string" where
  "as_str f (JStr s) = Inr s"
| "as_str f _ = Inl (IllTyped f)"

fun as_int :: "string \<Rightarrow> json \<Rightarrow> error + int" where
  "as_int f (JInt i) = Inr i"
| "as_int f _ = Inl (IllTyped f)"

fun as_float :: "string \<Rightarrow> json \<Rightarrow> error + real" where
  "as_float f (JFloat r) = Inr r"
| "as_float f (JInt i) = Inr (real_of_int i)"
| "as_float f _ = Inl (IllTyped f)"

text \<open>\<^verbatim>\<open>str\<close> of an integer, as an f-string formats it.\<close>

fun digits_of :: "nat \<Rightarrow> string" where
  "digits_of n =
     (if n < 10 then [''0123456789'' ! n]
      else digits_of (n div 10) @ [''0123456789'' ! (n mod 10)])"

declare digits_of.simps [simp del]

definition str_int :: "int \<Rightarrow> string" where
  "str_int i = (if i < 0 then CHR ''-'' # digits_of (nat (- i)) else digits_of (nat i))"

section \<open>The data model\<close>

record LLMResponse =
  id :: string
  model :: string
  prompt :: string
  user_input :: string
  response :: string
  finish_reason :: string
  raw_request :: json
  raw_response :: json
  elapsed_time :: real

record LLMCostAndStats =
  id :: string
  gpt_tokens_prompt :: int
  gpt_tokens_completion :: int
  native_tokens_prompt :: int
  native_tokens_completion :: int
  cost :: real
  raw_response :: json
  elapsed_time :: real

definition gpt_tokens_total :: "LLMCostAndStats \<Rightarrow> int" where
  "gpt_tokens_total s = gpt_tokens_prompt s + gpt_tokens_completion s"

definition native_tokens_total :: "LLMCostAndStats \<Rightarrow> int" where
  "native_tokens_total s = native_tokens_prompt s + native_tokens_completion s"

record Model =
  id :: string
  name :: string
  pricing_prompt :: real
  pricing_completion :: real
  context_length :: int
  max_completion_tokens :: int
  tokenizer :: string
  instruct_type :: string

section \<open>The world a call runs in\<close>

text \<open>
  What a call reads from outside: whether the directory \<^verbatim>\<open>config\<close> exists, the
  bindings of the two \<^verbatim>\<open>.env\<close> files (empty for a file that is absent), the process
  environment, and the gateway. The gateway answers a request with a transport failure
  or with a response and the seconds the call took (the difference of the two
  \<^verbatim>\<open>time.time()\<close> readings).
\<close>

record world =
  config_is_dir :: bool
  config_dotenv :: "string \<rightharpoonup> string"
  cwd_dotenv :: "string \<rightharpoonup> string"
  environ :: "string \<rightharpoonup> string"
  gateway :: "request \<Rightarrow> transport_failure + (http_response \<times> real)"

definition OPENROUTER_API :: string where
  "OPENROUTER_API = ''https://openrouter.ai/api/v1''"

definition REFERER :: string where
  "REFERER = ''http://localhost:3000''"

text \<open>\<^verbatim>\<open>dotenv.load_dotenv(..., override=True)\<close>: the file's bindings replace the environment's.\<close>

definition load_dotenv :: "world \<Rightarrow> string \<rightharpoonup> string" where
  "load_dotenv w = environ w ++ (if config_is_dir w then config_dotenv w else cwd_dotenv w)"

text \<open>
  \<^verbatim>\<open>not api_key\<close> holds for \<^verbatim>\<open>None\<close> and for the empty string. The bindings that
  \<^verbatim>\<open>load_dotenv\<close> leaves in the process environment are the same at every later load of
  the same file, so the world is read and not returned.
\<close>

definition falsy :: "string option \<Rightarrow> bool" where
  "falsy v = (case v of None \<Rightarrow> True | Some s \<Rightarrow> s = [])"

definition get_api_key :: "world \<Rightarrow> error + string" where
  "get_api_key w =
     (let env = load_dotenv w;
          api_key = env ''OPENAI_API_KEY'';
          api_key = (if falsy api_key then env ''OPENROUTER_API_KEY'' else api_key)
      in case api_key of
           Some s \<Rightarrow>
             if s \<noteq> [] then Inr s
             else Inl (EnvironmentError
                    ''API key environment variable not set -- see README.md for instructions'')
         | None \<Rightarrow>
             Inl (EnvironmentError
               ''API key environment variable not set -- see README.md for instructions''))"

text \<open>\<^verbatim>\<open>Response.raise_for_status\<close> of the \<^verbatim>\<open>requests\<close> library.\<close>

definition raise_for_status :: "string \<Rightarrow> http_response \<Rightarrow> error + unit" where
  "raise_for_status u r =
     (if 400 \<le> status_code r \<and> status_code r < 500
      then Inl (HTTPError (str_int (status_code r) @ '' Client Error: '' @ reason r
                  @ '' for url: '' @ u) r)
      else if 500 \<le> status_code r \<and> status_code r < 600
      then Inl (HTTPError (str_int (status_code r) @ '' Server Error: '' @ reason r
                  @ '' for url: '' @ u) r)
      else Inr ())"

text \<open>\<^verbatim>\<open>http_response.json()\<close>.\<close>

definition response_json :: "http_response \<Rightarrow> error + json" where
  "response_json r = (case body r of None \<Rightarrow> Inl JSONDecodeError | Some d \<Rightarrow> Inr d)"

section \<open>The gateway client\<close>

text \<open>
  Every operation returns the requests it sent, in order, and its outcome: \<open>Inl\<close> the
  exception it raised, \<open>Inr\<close> the value it returned. The two warnings that
  \<^verbatim>\<open>cost_and_stats\<close> prints go to standard output only and are left out.
\<close>

type_synonym 'a io = "request list \<times> (error + 'a)"

subsection \<open>\<^verbatim>\<open>chat_completion\<close>\<close>

definition chat_payload :: "string \<Rightarrow> string \<Rightarrow> string \<Rightarrow> real \<Rightarrow> int \<Rightarrow> json" where
  "chat_payload model' prompt' user_input' temperature max_tokens =
     JObj [(''model'', JStr model'),
           (''messages'',
              JArr [JObj [(''role'', JStr ''system''), (''content'', JStr prompt')],
                    JObj [(''role'', JStr ''user''), (''content'', JStr user_input')]]),
           (''temperature'', JFloat temperature),
           (''max_tokens'', JInt max_tokens)]"

text \<open>The arguments of \<^verbatim>\<open>requests.post\<close>, for the credential \<open>key\<close>.\<close>

definition chat_request :: "string \<Rightarrow> string \<Rightarrow> string \<Rightarrow> string \<Rightarrow> real \<Rightarrow> int \<Rightarrow> request" where
  "chat_request key model' prompt' user_input' temperature max_tokens =
     \<lparr>verb = POST,
      url = OPENROUTER_API @ ''/chat/completions'',
      headers = [(''Authorization'', ''Bearer '' @ key), (''HTTP-Referer'', REFERER)],
      json_body = Some (chat_payload model' prompt' user_input' temperature max_tokens),
      timeout = 120\<rparr>"

definition exception_text :: "string \<Rightarrow> http_response \<Rightarrow> string" where
  "exception_text model' r =
     model' @ [CHR 0x0A] @ ''HTTP error '' @ str_int (status_code r) @ '' - '' @ reason r"

text \<open>
  The part of \<^verbatim>\<open>chat_completion\<close> after the status check: the keys are read without
  checking that they exist, in the order of the source, and only \<^verbatim>\<open>finish_reason\<close> has a
  default.
\<close>

definition chat_response ::
  "string \<Rightarrow> string \<Rightarrow> string \<Rightarrow> json \<Rightarrow> real \<Rightarrow> json \<Rightarrow> error + LLMResponse" where
  "chat_response model' prompt' user_input' payload elapsed data =
     and_then (getitem data ''id'') (\<lambda>rid.
     and_then (getitem data ''choices'') (\<lambda>choices.
     and_then (getitem0 choices) (\<lambda>choice.
     and_then (getitem choice ''message'') (\<lambda>message.
     and_then (getitem message ''content'') (\<lambda>content.
     and_then (get_default data ''choices'' (JArr [JObj []])) (\<lambda>choices'.
     and_then (getitem0 choices') (\<lambda>choice'.
     and_then (get_default choice' ''finish_reason'' (JStr ''not available'')) (\<lambda>fr.
     and_then (as_str ''id'' rid) (\<lambda>rid_s.
     and_then (as_str ''response'' content) (\<lambda>content_s.
     and_then (as_str ''finish_reason'' fr) (\<lambda>fr_s.
       Inr \<lparr>LLMResponse.id = rid_s,
            model = model',
            prompt = prompt',
            user_input = user_input',
            response = content_s,
            finish_reason = fr_s,
            raw_request = payload,
            LLMResponse.raw_response = data,
            LLMResponse.elapsed_time = elapsed\<rparr>)))))))))))"

definition chat_completion ::
  "world \<Rightarrow> string \<Rightarrow> string \<Rightarrow> string \<Rightarrow> real \<Rightarrow> int \<Rightarrow> LLMResponse io" where
  "chat_completion w model' prompt' user_input' temperature max_tokens =
     (let payload = chat_payload model' prompt' user_input' temperature max_tokens in
      case get_api_key w of
        Inl e \<Rightarrow> ([], Inl e)
      | Inr key \<Rightarrow>
          (let req = chat_request key model' prompt' user_input' temperature max_tokens in
           case gateway w req of
             Inl t \<Rightarrow> ([req], Inl (RequestException t))
           | Inr (http_response, elapsed) \<Rightarrow>
               if status_code http_response \<noteq> 200
               then ([req], Inl (HTTPError (exception_text model' http_response) http_response))
               else ([req],
                     and_then (response_json http_response)
                       (chat_response model' prompt' user_input' payload elapsed))))"

subsection \<open>\<^verbatim>\<open>cost_and_stats\<close>\<close>

definition stats_request :: "string \<Rightarrow> string \<Rightarrow> request" where
  "stats_request key rid =
     \<lparr>verb = GET,
      url = OPENROUTER_API @ ''/generation?id='' @ rid,
      headers = [(''Authorization'', ''Bearer '' @ key)],
      json_body = None,
      timeout = 360\<rparr>"

definition stats_response :: "string \<Rightarrow> real \<Rightarrow> json \<Rightarrow> error + LLMCostAndStats" where
  "stats_response rid response_time payload =
     and_then (getitem payload ''tokens_prompt'') (\<lambda>tp.
     and_then (getitem payload ''tokens_completion'') (\<lambda>tc.
     and_then (getitem payload ''native_tokens_prompt'') (\<lambda>ntp.
     and_then (getitem payload ''native_tokens_completion'') (\<lambda>ntc.
     and_then (getitem payload ''usage'') (\<lambda>usage.
     and_then (as_int ''gpt_tokens_prompt'' tp) (\<lambda>tp_i.
     and_then (as_int ''gpt_tokens_completion'' tc) (\<lambda>tc_i.
     and_then (as_int ''native_tokens_prompt'' ntp) (\<lambda>ntp_i.
     and_then (as_int ''native_tokens_completion'' ntc) (\<lambda>ntc_i.
     and_then (as_float ''cost'' usage) (\<lambda>usage_r.
       Inr \<lparr>LLMCostAndStats.id = rid,
            gpt_tokens_prompt = tp_i,
            gpt_tokens_completion = tc_i,
            native_tokens_prompt = ntp_i,
            native_tokens_completion = ntc_i,
            cost = usage_r,
            LLMCostAndStats.raw_response = payload,
            LLMCostAndStats.elapsed_time = response_time\<rparr>))))))))))"

text \<open>
  The \<^verbatim>\<open>try\<close> block holds the request, the test for 404 and \<^verbatim>\<open>raise_for_status\<close>;
  the credential is read before it and the payload after it.
\<close>

definition cost_and_stats :: "world \<Rightarrow> LLMResponse \<Rightarrow> LLMCostAndStats option io" where
  "cost_and_stats w response' =
     (case get_api_key w of
        Inl e \<Rightarrow> ([], Inl e)
      | Inr key \<Rightarrow>
          (let req = stats_request key (LLMResponse.id response') in
           case gateway w req of
             Inl t \<Rightarrow> ([req], Inr None)
           | Inr (http_response, response_time) \<Rightarrow>
               if status_code http_response = 404 then ([req], Inr None)
               else
                 (case raise_for_status (url req) http_response of
                    Inl e \<Rightarrow> ([req], Inr None)
                  | Inr u \<Rightarrow>
                      ([req],
                       and_then (response_json http_response) (\<lambda>d.
                       and_then (getitem d ''data'') (\<lambda>payload.
                       and_then (stats_response (LLMResponse.id response') response_time payload)
                         (\<lambda>cost_stats. Inr (Some cost_stats))))))))"

subsection \<open>\<^verbatim>\<open>available_models\<close>\<close>

text \<open>\<^verbatim>\<open>requests.get\<close> is called with the address and the timeout only.\<close>

definition models_request :: request where
  "models_request =
     \<lparr>verb = GET,
      url = OPENROUTER_API @ ''/models'',
      headers = [],
      json_body = None,
      timeout = 360\<rparr>"

type_synonym model_fields = "json \<times> json \<times> real \<times> real \<times> json \<times> json \<times> json \<times> json"

text \<open>
  One turn of the loop, up to the arguments of \<^verbatim>\<open>Model(...)\<close> in the order they are
  evaluated; a \<^verbatim>\<open>max_completion_tokens\<close> of \<^verbatim>\<open>None\<close> has become 0. The builtin
  \<^verbatim>\<open>float\<close> is not code of this module: it is the parameter \<open>to_float\<close>, which gives
  the float Python computes or the exception it raises.
\<close>

definition item_fields :: "(json \<Rightarrow> error + real) \<Rightarrow> json \<Rightarrow> error + model_fields" where
  "item_fields to_float item =
     and_then (getitem item ''pricing'') (\<lambda>pricing.
     and_then (getitem item ''architecture'') (\<lambda>architecture.
     and_then (getitem item ''top_provider'') (\<lambda>top_provider.
     and_then (getitem top_provider ''max_completion_tokens'') (\<lambda>mct.
     and_then (getitem item ''id'') (\<lambda>mid.
     and_then (getitem item ''name'') (\<lambda>mname.
     and_then (getitem pricing ''prompt'') (\<lambda>pp.
     and_then (to_float pp) (\<lambda>pp_r.
     and_then (getitem pricing ''completion'') (\<lambda>pc.
     and_then (to_float pc) (\<lambda>pc_r.
     and_then (getitem item ''context_length'') (\<lambda>cl.
     and_then (getitem architecture ''tokenizer'') (\<lambda>tok.
     and_then (getitem architecture ''instruct_type'') (\<lambda>ins.
       Inr (mid, mname, pp_r, pc_r, cl, tok, ins,
            (if mct = JNull then JInt 0 else mct)))))))))))))))"

fun read_items ::
  "(json \<Rightarrow> error + real) \<Rightarrow> json list \<Rightarrow> model_fields list \<Rightarrow> error + model_fields list" where
  "read_items to_float [] api_data_list = Inr api_data_list"
| "read_items to_float (item # items) api_data_list =
     and_then (item_fields to_float item)
       (\<lambda>api_data. read_items to_float items (api_data_list @ [api_data]))"

definition typed_model :: "model_fields \<Rightarrow> error + Model" where
  "typed_model fs =
     (case fs of (mid, mname, pp, pc, cl, tok, ins, mct) \<Rightarrow>
        and_then (as_str ''id'' mid) (\<lambda>mid_s.
        and_then (as_str ''name'' mname) (\<lambda>mname_s.
        and_then (as_int ''context_length'' cl) (\<lambda>cl_i.
        and_then (as_str ''tokenizer'' tok) (\<lambda>tok_s.
        and_then (as_str ''instruct_type'' ins) (\<lambda>ins_s.
        and_then (as_int ''max_completion_tokens'' mct) (\<lambda>mct_i.
          Inr \<lparr>Model.id = mid_s,
               name = mname_s,
               pricing_prompt = pp,
               pricing_completion = pc,
               context_length = cl_i,
               max_completion_tokens = mct_i,
               tokenizer = tok_s,
               instruct_type = ins_s\<rparr>)))))))"

fun typed_models :: "model_fields list \<Rightarrow> error + Model list" where
  "typed_models [] = Inr []"
| "typed_models (fs # fss) =
     and_then (typed_model fs) (\<lambda>m. and_then (typed_models fss) (\<lambda>ms. Inr (m # ms)))"

definition available_models :: "(json \<Rightarrow> error + real) \<Rightarrow> world \<Rightarrow> Model list io" where
  "available_models to_float w =
     (let req = models_request in
      case gateway w req of
        Inl t \<Rightarrow> ([req], Inl (RequestException t))
      | Inr (http_response, elapsed) \<Rightarrow>
          (case raise_for_status (url req) http_response of
             Inl e \<Rightarrow> ([req], Inl e)
           | Inr u \<Rightarrow>
               ([req],
                and_then (response_json http_response) (\<lambda>d.
                and_then (getitem d ''data'') (\<lambda>payload.
                and_then (iterate payload) (\<lambda>items.
                and_then (read_items to_float items []) typed_models))))))"

section \<open>Fan-out over a thread pool\<close>

subsection \<open>Models as dictionary keys\<close>

text \<open>
  \<^verbatim>\<open>@dataclass(frozen=True)\<close> without further options generates \<^verbatim>\<open>__eq__\<close>, which
  compares the tuples of all fields in the order of their declaration, and \<^verbatim>\<open>__hash__\<close>,
  which hashes that same tuple. The builtin hash of a tuple is the parameter \<open>h\<close>. A
  dictionary takes a stored key for the key at hand when their hashes agree and they are
  equal.
\<close>

type_synonym model_tuple = "string \<times> string \<times> real \<times> real \<times> int \<times> int \<times> string \<times> string"

definition fields_of :: "Model \<Rightarrow> model_tuple" where
  "fields_of m =
     (Model.id m, name m, pricing_prompt m, pricing_completion m, context_length m,
      max_completion_tokens m, tokenizer m, instruct_type m)"

definition Model_eq :: "Model \<Rightarrow> Model \<Rightarrow> bool" where
  "Model_eq a b = (fields_of a = fields_of b)"

definition Model_hash :: "(model_tuple \<Rightarrow> int) \<Rightarrow> Model \<Rightarrow> int" where
  "Model_hash h m = h (fields_of m)"

definition same_key :: "(model_tuple \<Rightarrow> int) \<Rightarrow> Model \<Rightarrow> Model \<Rightarrow> bool" where
  "same_key h a b = (Model_hash h a = Model_hash h b \<and> Model_eq a b)"

text \<open>
  A Python dictionary keeps its keys in insertion order: \<^verbatim>\<open>results[k] = v\<close> replaces the
  value of a key that is present, keeping the stored key, and appends a key that is not.
\<close>

fun setitem :: "('k \<Rightarrow> 'k \<Rightarrow> bool) \<Rightarrow> 'k \<Rightarrow> 'v \<Rightarrow> ('k \<times> 'v) list \<Rightarrow> ('k \<times> 'v) list" where
  "setitem same k v [] = [(k, v)]"
| "setitem same k v (p # ps) =
     (if same (fst p) k then (fst p, v) # ps else p # setitem same k v ps)"

subsection \<open>The pool and the collection loop\<close>

text \<open>
  What \<^verbatim>\<open>future.result()\<close> gives: the object the task returned, or the task's exception
  raised again. An object with a value of another type in one of its fields is an object
  all the same.
\<close>

datatype 'a object = Object 'a | IllTypedObject string

fun result :: "error + 'a \<Rightarrow> error + 'a object" where
  "result (Inr v) = Inr (Object v)"
| "result (Inl (IllTyped f)) = Inr (IllTypedObject f)"
| "result (Inl e) = Inl e"

text \<open>
  The pool runs one task per submitted future. Task number \<open>i\<close> (in submission order)
  runs in the world \<open>ws i\<close>, so that the credential and the gateway may differ from task
  to task. A future is the key it was stored under, the requests its task sends and the
  task's outcome. \<^verbatim>\<open>as_completed\<close> hands the futures to the loop in the order in which
  they finish: that order is the parameter \<open>as_completed\<close>, some rearrangement of the
  list of futures.

  The loop takes the futures one by one. By the time it has a future in hand, the task
  of that future has run. When \<^verbatim>\<open>future.result()\<close> raises, the exception leaves the loop
  and the \<^verbatim>\<open>with\<close> block, whose exit is \<^verbatim>\<open>shutdown(wait=True)\<close>: it cancels nothing and
  returns when the tasks of the futures not yet taken have run as well. Only then does
  the exception reach the caller. The requests are listed in the order in which the
  tasks finish, which need not be the order in which they were sent.
\<close>

definition shutdown :: "('k \<times> 'v io) list \<Rightarrow> request list" where
  "shutdown futures = concat (map (\<lambda>f. fst (snd f)) futures)"

fun collect ::
  "('k \<Rightarrow> 'k \<Rightarrow> bool) \<Rightarrow> ('k \<times> 'v io) list \<Rightarrow> ('k \<times> 'v object) list
     \<Rightarrow> (('k \<times> 'v object) list) io" where
  "collect same [] results = ([], Inr results)"
| "collect same (future # futures) results =
     (case result (snd (snd future)) of
        Inl e \<Rightarrow> (fst (snd future) @ shutdown futures, Inl e)
      | Inr v \<Rightarrow>
          (case collect same futures (setitem same (fst future) v results) of
             (sent, outcome) \<Rightarrow> (fst (snd future) @ sent, outcome)))"

subsection \<open>\<^verbatim>\<open>chat_completion_multiple\<close> and \<^verbatim>\<open>cost_and_stats_multiple\<close>\<close>

definition submit_chat ::
  "(nat \<Rightarrow> world) \<Rightarrow> Model list \<Rightarrow> string \<Rightarrow> string \<Rightarrow> real \<Rightarrow> int
     \<Rightarrow> (Model \<times> LLMResponse io) list" where
  "submit_chat ws models prompt' user_input' temperature max_tokens =
     map (\<lambda>(i, m). (m, chat_completion (ws i) (Model.id m) prompt' user_input'
                            temperature max_tokens))
       (enumerate 0 models)"

definition chat_completion_multiple ::
  "(nat \<Rightarrow> world)
     \<Rightarrow> ((Model \<times> LLMResponse io) list \<Rightarrow> (Model \<times> LLMResponse io) list)
     \<Rightarrow> (model_tuple \<Rightarrow> int)
     \<Rightarrow> Model list \<Rightarrow> string \<Rightarrow> string \<Rightarrow> real \<Rightarrow> int
     \<Rightarrow> ((Model \<times> LLMResponse object) list) io" where
  "chat_completion_multiple ws as_completed h models prompt' user_input' temperature max_tokens =
     (let futures = submit_chat ws models prompt' user_input' temperature max_tokens
      in collect (same_key h) (as_completed futures) [])"

text \<open>
  The argument of \<^verbatim>\<open>cost_and_stats_multiple\<close> is a dictionary of responses, as it is
  annotated; its items are submitted in their order.
\<close>

definition submit_stats ::
  "(nat \<Rightarrow> world) \<Rightarrow> (Model \<times> LLMResponse) list
     \<Rightarrow> (Model \<times> LLMCostAndStats option io) list" where
  "submit_stats ws llm_responses =
     map (\<lambda>(i, mr). (fst mr, cost_and_stats (ws i) (snd mr))) (enumerate 0 llm_responses)"

definition cost_and_stats_multiple ::
  "(nat \<Rightarrow> world)
     \<Rightarrow> ((Model \<times> LLMCostAndStats option io) list \<Rightarrow> (Model \<times> LLMCostAndStats option io) list)
     \<Rightarrow> (model_tuple \<Rightarrow> int)
     \<Rightarrow> (Model \<times> LLMResponse) list
     \<Rightarrow> ((Model \<times> LLMCostAndStats option object) list) io" where
  "cost_and_stats_multiple ws as_completed h llm_responses =
     (let futures = submit_stats ws llm_responses
      in collect (same_key h) (as_completed futures) [])"

section \<open>Concrete worlds\<close>

text \<open>
  A world whose environment holds an OpenRouter key and no \<^verbatim>\<open>.env\<close> file, in front of
  a gateway \<open>gw\<close>; the same world without any key; and a world where the key comes
  from \<^verbatim>\<open>config/.env\<close> and replaces the one of the environment.
\<close>

definition keyed_world :: "(request \<Rightarrow> transport_failure + (http_response \<times> real)) \<Rightarrow> world" where
  "keyed_world gw =
     \<lparr>config_is_dir = False,
      config_dotenv = Map.empty,
      cwd_dotenv = Map.empty,
      environ = [''OPENROUTER_API_KEY'' \<mapsto> ''sk-or-1''],
      gateway = gw\<rparr>"

definition keyless_world :: "(request \<Rightarrow> transport_failure + (http_response \<times> real)) \<Rightarrow> world" where
  "keyless_world gw =
     \<lparr>config_is_dir = False,
      config_dotenv = Map.empty,
      cwd_dotenv = Map.empty,
      environ = Map.empty,
      gateway = gw\<rparr>"

definition rotated_world :: "(request \<Rightarrow> transport_failure + (http_response \<times> real)) \<Rightarrow> world" where
  "rotated_world gw =
     \<lparr>config_is_dir = True,
      config_dotenv = [''OPENROUTER_API_KEY'' \<mapsto> ''sk-or-2''],
      cwd_dotenv = Map.empty,
      environ = [''OPENROUTER_API_KEY'' \<mapsto> ''sk-or-1''],
      gateway = gw\<rparr>"

text \<open>Gateways that give the same answer to every request.\<close>

definition answering :: "http_response \<Rightarrow> request \<Rightarrow> transport_failure + (http_response \<times> real)" where
  "answering r req = Inr (r, 2)"

definition timing_out :: "request \<Rightarrow> transport_failure + (http_response \<times> real)" where
  "timing_out req = Inl Timeout"

text \<open>A chat completion without \<^verbatim>\<open>finish_reason\<close>, and one with it.\<close>

definition chat_body_plain :: json where
  "chat_body_plain =
     JObj [(''id'', JStr ''gen-1''),
           (''choices'', JArr [JObj [(''message'', JObj [(''role'', JStr ''assistant''),
                                                         (''content'', JStr ''4'')])]])]"

definition chat_body_stop :: json where
  "chat_body_stop =
     JObj [(''id'', JStr ''gen-2''),
           (''choices'', JArr [JObj [(''message'', JObj [(''content'', JStr ''four'')]),
                                     (''finish_reason'', JStr ''stop'')]])]"

definition chat_ok :: http_response where
  "chat_ok = \<lparr>status_code = 200, reason = ''OK'', body = Some chat_body_plain\<rparr>"

definition chat_ok_stop :: http_response where
  "chat_ok_stop = \<lparr>status_code = 200, reason = ''OK'', body = Some chat_body_stop\<rparr>"

definition chat_created :: http_response where
  "chat_created = \<lparr>status_code = 201, reason = ''Created'', body = Some chat_body_plain\<rparr>"

definition server_error :: http_response where
  "server_error = \<lparr>status_code = 500, reason = ''Internal Server Error'', body = None\<rparr>"

definition not_found :: http_response where
  "not_found = \<lparr>status_code = 404, reason = ''Not Found'', body = None\<rparr>"

text \<open>Generation data, complete and with the \<^verbatim>\<open>data\<close> key missing.\<close>

definition stats_body :: json where
  "stats_body =
     JObj [(''data'',
            JObj [(''tokens_prompt'', JInt 12),
                  (''tokens_completion'', JInt 3),
                  (''native_tokens_prompt'', JInt 14),
                  (''native_tokens_completion'', JInt 2),
                  (''usage'', JFloat 0.5)])]"

definition stats_ok :: http_response where
  "stats_ok = \<lparr>status_code = 200, reason = ''OK'', body = Some stats_body\<rparr>"

definition stats_no_data :: http_response where
  "stats_no_data =
     \<lparr>status_code = 200, reason = ''OK'', body = Some (JObj [(''error'', JStr ''pending'')])\<rparr>"

definition catalog_empty :: http_response where
  "catalog_empty = \<lparr>status_code = 200, reason = ''OK'', body = Some (JObj [(''data'', JArr [])])\<rparr>"

text \<open>Three models; \<open>model_a_repriced\<close> has the identifier of \<open>model_a\<close> and another price.\<close>

definition model_a :: Model where
  "model_a =
     \<lparr>Model.id = ''vendor/a'', name = ''A'', pricing_prompt = 1, pricing_completion = 2,
      context_length = 4096, max_completion_tokens = 0, tokenizer = ''GPT'',
      instruct_type = ''none''\<rparr>"

definition model_b :: Model where
  "model_b =
     \<lparr>Model.id = ''vendor/b'', name = ''B'', pricing_prompt = 1, pricing_completion = 2,
      context_length = 4096, max_completion_tokens = 0, tokenizer = ''GPT'',
      instruct_type = ''none''\<rparr>"

definition model_c :: Model where
  "model_c =
     \<lparr>Model.id = ''vendor/c'', name = ''C'', pricing_prompt = 1, pricing_completion = 2,
      context_length = 4096, max_completion_tokens = 0, tokenizer = ''GPT'',
      instruct_type = ''none''\<rparr>"

definition model_a_repriced :: Model where
  "model_a_repriced =
     \<lparr>Model.id = ''vendor/a'', name = ''A'', pricing_prompt = 3, pricing_completion = 2,
      context_length = 4096, max_completion_tokens = 0, tokenizer = ''GPT'',
      instruct_type = ''none''\<rparr>"

text \<open>Batches where every task succeeds, and where the second task alone fails.\<close>

definition all_answer :: "nat \<Rightarrow> world" where
  "all_answer i = keyed_world (answering chat_ok)"

definition second_fails :: "nat \<Rightarrow> world" where
  "second_fails i = (if i = 1 then keyed_world (answering server_error)
                     else keyed_world (answering chat_ok))"

definition second_times_out :: "nat \<Rightarrow> world" where
  "second_times_out i = (if i = 1 then keyed_world timing_out
                         else keyed_world (answering chat_ok))"

definition chat_accepted :: http_response where
  "chat_accepted = \<lparr>status_code = 202, reason = ''Accepted'', body = Some chat_body_plain\<rparr>"

definition response_gen1 :: LLMResponse where
  "response_gen1 =
     \<lparr>LLMResponse.id = ''gen-1'', model = ''vendor/a'', prompt = ''p'', user_input = ''2+2=?'',
      response = ''4'', finish_reason = ''not available'', raw_request = JNull,
      LLMResponse.raw_response = chat_body_plain, LLMResponse.elapsed_time = 2\<rparr>"

definition no_parse :: "json \<Rightarrow> error + real" where
  "no_parse v = Inl ValueError"

text \<open>A catalog of one model without a completion limit, and a reader of its prices.\<close>

definition catalog_item :: json where
  "catalog_item =
     JObj [(''id'', JStr ''vendor/a''),
           (''name'', JStr ''A''),
           (''pricing'', JObj [(''prompt'', JStr ''0.5''), (''completion'', JStr ''1.5'')]),
           (''context_length'', JInt 4096),
           (''architecture'', JObj [(''tokenizer'', JStr ''GPT''),
                                    (''instruct_type'', JStr ''none'')]),
           (''top_provider'', JObj [(''max_completion_tokens'', JNull)])]"

definition catalog_one :: http_response where
  "catalog_one =
     \<lparr>status_code = 200, reason = ''OK'', body = Some (JObj [(''data'', JArr [catalog_item])])\<rparr>"

definition parse_prices :: "json \<Rightarrow> error + real" where
  "parse_prices v =
     (if v = JStr ''0.5'' then Inr 0.5 else if v = JStr ''1.5'' then Inr 1.5 else Inl ValueError)"

text \<open>
  A completion whose content is \<^verbatim>\<open>null\<close>, a batch whose second task gets it, a batch
  whose first task gets it while the second times out, and a batch whose second task
  finds no credential.
\<close>

definition chat_body_null :: json where
  "chat_body_null =
     JObj [(''id'', JStr ''gen-3''),
           (''choices'', JArr [JObj [(''message'', JObj [(''content'', JNull)]),
                                     (''finish_reason'', JStr ''stop'')]])]"

definition chat_ok_null :: http_response where
  "chat_ok_null = \<lparr>status_code = 200, reason = ''OK'', body = Some chat_body_null\<rparr>"

definition second_null :: "nat \<Rightarrow> world" where
  "second_null i = (if i = 1 then keyed_world (answering chat_ok_null)
                    else keyed_world (answering chat_ok))"

definition null_then_timeout :: "nat \<Rightarrow> world" where
  "null_then_timeout i = (if i = 0 then keyed_world (answering chat_ok_null)
                          else keyed_world timing_out)"

definition second_keyless :: "nat \<Rightarrow> world" where
  "second_keyless i = (if i = 1 then keyless_world (answering chat_ok)
                       else keyed_world (answering chat_ok))"

text \<open>Two hash functions: one that tells no two tuples apart, one that reads the identifier.\<close>

definition flat_hash :: "model_tuple \<Rightarrow> int" where
  "flat_hash t = 0"

definition id_length_hash :: "model_tuple \<Rightarrow> int" where
  "id_length_hash t = int (length (fst t))"

text \<open>Two completion orders: that of submission, and (with \<open>rev\<close>) its reverse.\<close>

definition submission_order :: "'a list \<Rightarrow> 'a list" where
  "submission_order fs = fs"

text \<open>The keys of a returned dictionary, in their order.\<close>

definition keys_of :: "error + ('k \<times> 'v) list \<Rightarrow> error + 'k list" where
  "keys_of r = (case r of Inl e \<Rightarrow> Inl e | Inr d \<Rightarrow> Inr (map fst d))"

section \<open>Basic facts\<close>

lemma and_then_Inl [simp]: "and_then (Inl e) f = Inl e"
  by (simp add: and_then_def)

lemma and_then_Inr [simp]: "and_then (Inr v) f = f v"
  by (simp add: and_then_def)

lemma and_then_eq_Inr: "and_then r f = Inr y \<longleftrightarrow> (\<exists>v. r = Inr v \<and> f v = Inr y)"
  by (cases r) simp_all

lemma get_api_key_keyed [simp]: "get_api_key (keyed_world gw) = Inr ''sk-or-1''"
  by (simp add: get_api_key_def load_dotenv_def falsy_def keyed_world_def)

lemma get_api_key_rotated [simp]: "get_api_key (rotated_world gw) = Inr ''sk-or-2''"
  by (simp add: get_api_key_def load_dotenv_def falsy_def rotated_world_def)

lemma get_api_key_keyless [simp]:
  "get_api_key (keyless_world gw) =
     Inl (EnvironmentError
       ''API key environment variable not set -- see README.md for instructions'')"
  by (simp add: get_api_key_def load_dotenv_def falsy_def keyless_world_def)

lemma gateway_keyed [simp]: "gateway (keyed_world gw) = gw"
  by (simp add: keyed_world_def)

lemma gateway_rotated [simp]: "gateway (rotated_world gw) = gw"
  by (simp add: rotated_world_def)

lemma str_int_201: "str_int 201 = ''201''"
  by (simp add: str_int_def digits_of.simps)

lemma chat_plain_returns:
  "\<not> isl (snd (chat_completion (keyed_world (answering chat_ok)) m p u t mt))"
  by (simp add: chat_completion_def answering_def chat_ok_def chat_body_plain_def
      response_json_def chat_response_def)

section \<open>The claims\<close>

subsection \<open>Status codes of a chat completion\<close>

text \<open>
  Claim C10. \<^verbatim>\<open>chat_completion\<close> treats every status code other than exactly 200 as a
  failure: when the gateway delivers a response whose status is not 200 (201 and 204
  included), the call raises an \<^verbatim>\<open>HTTPError\<close> whose text starts with the model identifier
  and holds the status code and the reason, and which carries the response; no
  \<^verbatim>\<open>LLMResponse\<close> is returned.
\<close>

theorem chat_completion_non_200:
  assumes "get_api_key w = Inr key"
      and "gateway w (chat_request key m p u t mt) = Inr (resp, elapsed)"
      and "status_code resp \<noteq> 200"
  shows "snd (chat_completion w m p u t mt) =
           Inl (HTTPError (m @ [CHR 0x0A] @ ''HTTP error '' @ str_int (status_code resp)
                             @ '' - '' @ reason resp) resp)"
  using assms by (simp add: chat_completion_def exception_text_def)

theorem chat_completion_non_200_witness:
  "snd (chat_completion (keyed_world (answering chat_created)) ''vendor/a'' ''p'' ''2+2=?'' 0 2048) =
     Inl (HTTPError (''vendor/a'' @ [CHR 0x0A] @ ''HTTP error 201 - Created'') chat_created)"
  using chat_completion_non_200 [of "keyed_world (answering chat_created)" "''sk-or-1''"
      "''vendor/a''" "''p''" "''2+2=?''" 0 2048 chat_created 2]
  by (simp add: answering_def chat_created_def str_int_201)

subsection \<open>The correlation identifier of the statistics\<close>

lemma stats_response_id:
  "stats_response rid t payload = Inr s \<Longrightarrow> LLMCostAndStats.id s = rid"
  by (auto simp: stats_response_def and_then_eq_Inr)

lemma cost_and_stats_Some_id:
  assumes "snd (cost_and_stats w r) = Inr (Some s)"
  shows "LLMCostAndStats.id s = LLMResponse.id r"
  using assms
  by (auto simp: cost_and_stats_def Let_def and_then_eq_Inr
      split: sum.splits prod.splits if_splits dest: stats_response_id)

text \<open>
  Claim C8. Whenever \<^verbatim>\<open>cost_and_stats\<close> returns statistics for a response, their \<open>id\<close>
  is the \<open>id\<close> of that response; so the statistics of any second lookup for a response
  with the same \<open>id\<close>, in whatever world, have the same \<open>id\<close>.
\<close>

theorem stats_id_is_response_id:
  assumes "snd (cost_and_stats w r) = Inr (Some s)"
  shows "LLMCostAndStats.id s = LLMResponse.id r \<and>
         (\<forall>w' r' s'. LLMResponse.id r' = LLMResponse.id r \<and>
              snd (cost_and_stats w' r') = Inr (Some s')
            \<longrightarrow> LLMCostAndStats.id s' = LLMCostAndStats.id s)"
proof -
  have first: "LLMCostAndStats.id s = LLMResponse.id r"
    using assms by (rule cost_and_stats_Some_id)
  have "LLMCostAndStats.id s' = LLMCostAndStats.id s"
    if "LLMResponse.id r' = LLMResponse.id r" and "snd (cost_and_stats w' r') = Inr (Some s')"
    for w' r' s'
    using that first cost_and_stats_Some_id [of w' r' s'] by simp
  with first show ?thesis by blast
qed

lemma stats_gen1:
  "snd (cost_and_stats (keyed_world (answering stats_ok)) response_gen1) =
     Inr (Some \<lparr>LLMCostAndStats.id = ''gen-1'', gpt_tokens_prompt = 12,
                gpt_tokens_completion = 3, native_tokens_prompt = 14,
                native_tokens_completion = 2, cost = 0.5,
                LLMCostAndStats.raw_response =
                  JObj [(''tokens_prompt'', JInt 12),
                        (''tokens_completion'', JInt 3),
                        (''native_tokens_prompt'', JInt 14),
                        (''native_tokens_completion'', JInt 2),
                        (''usage'', JFloat 0.5)],
                LLMCostAndStats.elapsed_time = 2\<rparr>)"
  by (simp add: cost_and_stats_def answering_def stats_ok_def stats_body_def response_gen1_def
      raise_for_status_def response_json_def stats_response_def)

lemma stats_gen1_rotated:
  "\<exists>s'. snd (cost_and_stats (rotated_world (answering stats_ok)) response_gen1) = Inr (Some s')"
  by (simp add: cost_and_stats_def answering_def stats_ok_def stats_body_def response_gen1_def
      raise_for_status_def response_json_def stats_response_def)

theorem stats_id_is_response_id_witness:
  "\<exists>s s'. snd (cost_and_stats (keyed_world (answering stats_ok)) response_gen1) = Inr (Some s) \<and>
       snd (cost_and_stats (rotated_world (answering stats_ok)) response_gen1) = Inr (Some s') \<and>
       LLMCostAndStats.id s = ''gen-1'' \<and> LLMCostAndStats.id s' = ''gen-1''"
proof -
  obtain s where s: "snd (cost_and_stats (keyed_world (answering stats_ok)) response_gen1) = Inr (Some s)"
    using stats_gen1 by blast
  obtain s' where s': "snd (cost_and_stats (rotated_world (answering stats_ok)) response_gen1) = Inr (Some s')"
    using stats_gen1_rotated by blast
  from stats_id_is_response_id [OF s] s'
  have "LLMCostAndStats.id s = LLMResponse.id response_gen1"
    and "LLMCostAndStats.id s' = LLMCostAndStats.id s"
    by blast+
  with s s' show ?thesis by (simp add: response_gen1_def)
qed

subsection \<open>A completion without a finish reason\<close>

lemma chat_response_plain:
  assumes "map_of d ''id'' = Some (JStr i)"
      and "map_of d ''choices'' = Some (JArr (JObj c # cs))"
      and "map_of c ''message'' = Some (JObj msg)"
      and "map_of msg ''content'' = Some (JStr a)"
      and "map_of c ''finish_reason'' = None"
  shows "chat_response m p u payload elapsed (JObj d) =
           Inr \<lparr>LLMResponse.id = i, model = m, prompt = p, user_input = u, response = a,
                finish_reason = ''not available'', raw_request = payload,
                LLMResponse.raw_response = JObj d, LLMResponse.elapsed_time = elapsed\<rparr>"
  using assms by (simp add: chat_response_def)

text \<open>
  Claim C9, amended. For every chat-completion response with status exactly 200 whose
  payload has the \<open>id\<close> and the content of the first choice's message, and whose first
  choice has no \<^verbatim>\<open>finish_reason\<close> key, \<^verbatim>\<open>chat_completion\<close> returns an \<^verbatim>\<open>LLMResponse\<close>
  whose \<open>finish_reason\<close> is the text \<^verbatim>\<open>not available\<close>.
\<close>

theorem missing_finish_reason:
  assumes "get_api_key w = Inr key"
      and "gateway w (chat_request key m p u t mt) = Inr (resp, elapsed)"
      and "status_code resp = 200"
      and "body resp = Some (JObj d)"
      and "map_of d ''id'' = Some (JStr i)"
      and "map_of d ''choices'' = Some (JArr (JObj c # cs))"
      and "map_of c ''message'' = Some (JObj msg)"
      and "map_of msg ''content'' = Some (JStr a)"
      and "map_of c ''finish_reason'' = None"
  shows "snd (chat_completion w m p u t mt) =
           Inr \<lparr>LLMResponse.id = i, model = m, prompt = p, user_input = u, response = a,
                finish_reason = ''not available'', raw_request = chat_payload m p u t mt,
                LLMResponse.raw_response = JObj d, LLMResponse.elapsed_time = elapsed\<rparr>"
  using assms by (simp add: chat_completion_def response_json_def chat_response_plain)

theorem missing_finish_reason_witness:
  "snd (chat_completion (keyed_world (answering chat_ok)) ''vendor/a'' ''p'' ''2+2=?'' 0 2048) =
     Inr \<lparr>LLMResponse.id = ''gen-1'', model = ''vendor/a'', prompt = ''p'',
          user_input = ''2+2=?'', response = ''4'', finish_reason = ''not available'',
          raw_request = chat_payload ''vendor/a'' ''p'' ''2+2=?'' 0 2048,
          LLMResponse.raw_response = chat_body_plain, LLMResponse.elapsed_time = 2\<rparr>"
  using missing_finish_reason [of "keyed_world (answering chat_ok)" "''sk-or-1''"
      "''vendor/a''" "''p''" "''2+2=?''" 0 2048 chat_ok 2
      "[(''id'', JStr ''gen-1''),
        (''choices'', JArr [JObj [(''message'', JObj [(''role'', JStr ''assistant''),
                                                      (''content'', JStr ''4'')])]])]"
      "''gen-1''"
      "[(''message'', JObj [(''role'', JStr ''assistant''), (''content'', JStr ''4'')])]"
      "[]"
      "[(''role'', JStr ''assistant''), (''content'', JStr ''4'')]"
      "''4''"]
  by (simp add: answering_def chat_ok_def chat_body_plain_def)

lemma str_int_202: "str_int 202 = ''202''"
  by (simp add: str_int_def digits_of.simps)

text \<open>
  As stated, for every 2xx response, claim C9 fails: a response with status 202 and the
  payload of the witness makes \<^verbatim>\<open>chat_completion\<close> raise.
\<close>

theorem missing_finish_reason_202_counterexample:
  "status_code chat_accepted = 202 \<and> body chat_accepted = body chat_ok \<and>
   snd (chat_completion (keyed_world (answering chat_accepted)) ''vendor/a'' ''p'' ''2+2=?'' 0 2048) =
     Inl (HTTPError (''vendor/a'' @ [CHR 0x0A] @ ''HTTP error 202 - Accepted'') chat_accepted)"
  by (simp add: chat_completion_def answering_def chat_accepted_def chat_ok_def
      exception_text_def str_int_202)

subsection \<open>The requests of the three operations\<close>

lemma chat_completion_requests:
  "fst (chat_completion w m p u t mt) =
     (case get_api_key w of Inl e \<Rightarrow> [] | Inr key \<Rightarrow> [chat_request key m p u t mt])"
  by (simp add: chat_completion_def Let_def split: sum.splits prod.splits)

lemma cost_and_stats_requests:
  "fst (cost_and_stats w r) =
     (case get_api_key w of Inl e \<Rightarrow> [] | Inr key \<Rightarrow> [stats_request key (LLMResponse.id r)])"
  by (simp add: cost_and_stats_def Let_def split: sum.splits prod.splits)

lemma available_models_requests: "fst (available_models parse w) = [models_request]"
  by (simp add: available_models_def Let_def split: sum.splits prod.splits)

subsection \<open>Bounds of the arguments\<close>

text \<open>
  Claim C5, amended. \<^verbatim>\<open>chat_completion\<close> checks neither \<^verbatim>\<open>max_tokens\<close> nor
  \<^verbatim>\<open>temperature\<close>: for every value of both (a \<^verbatim>\<open>max_tokens\<close> of 1, of 0 or below 0, a
  temperature of 0.0 or of 1.0), once the credential is found exactly one request is sent,
  and its payload holds the two values as they were given.
\<close>

theorem chat_completion_sends_unchecked:
  assumes "get_api_key w = Inr key"
  shows "fst (chat_completion w m p u t mt) = [chat_request key m p u t mt] \<and>
         (\<exists>payload. json_body (chat_request key m p u t mt) = Some payload \<and>
            getitem payload ''max_tokens'' = Inr (JInt mt) \<and>
            getitem payload ''temperature'' = Inr (JFloat t))"
  using assms by (simp add: chat_completion_requests chat_request_def chat_payload_def)

theorem chat_completion_sends_unchecked_witness:
  "fst (chat_completion (keyed_world timing_out) ''vendor/a'' ''p'' ''2+2=?'' 1 1) =
     [chat_request ''sk-or-1'' ''vendor/a'' ''p'' ''2+2=?'' 1 1] \<and>
   fst (chat_completion (keyed_world timing_out) ''vendor/a'' ''p'' ''2+2=?'' 0 (- 7)) =
     [chat_request ''sk-or-1'' ''vendor/a'' ''p'' ''2+2=?'' 0 (- 7)]"
  using chat_completion_sends_unchecked [of "keyed_world timing_out" "''sk-or-1''"
      "''vendor/a''" "''p''" "''2+2=?''" 1 1]
    chat_completion_sends_unchecked [of "keyed_world timing_out" "''sk-or-1''"
      "''vendor/a''" "''p''" "''2+2=?''" 0 "- 7"]
  by simp

text \<open>
  As stated, claim C5 fails: with \<^verbatim>\<open>max_tokens\<close> 0 the request is sent, with 0 in its
  payload, and the gateway's answer is returned.
\<close>

theorem max_tokens_zero_counterexample:
  "fst (chat_completion (keyed_world (answering chat_ok)) ''vendor/a'' ''p'' ''2+2=?'' 0 0) =
     [chat_request ''sk-or-1'' ''vendor/a'' ''p'' ''2+2=?'' 0 0] \<and>
   json_body (chat_request ''sk-or-1'' ''vendor/a'' ''p'' ''2+2=?'' 0 0) =
     Some (JObj [(''model'', JStr ''vendor/a''),
                 (''messages'',
                    JArr [JObj [(''role'', JStr ''system''), (''content'', JStr ''p'')],
                          JObj [(''role'', JStr ''user''), (''content'', JStr ''2+2=?'')]]),
                 (''temperature'', JFloat 0),
                 (''max_tokens'', JInt 0)]) \<and>
   \<not> isl (snd (chat_completion (keyed_world (answering chat_ok)) ''vendor/a'' ''p'' ''2+2=?'' 0 0))"
  by (simp add: chat_completion_requests chat_plain_returns chat_request_def chat_payload_def)

subsection \<open>Failures of a statistics lookup\<close>

text \<open>
  Claim C3, amended. For every statistics lookup that finds a credential, a transport
  failure of the request, a gateway 404 and every other status from 400 to 599 resolve
  to \<^verbatim>\<open>None\<close>, without an exception. (A lookup without a credential, and one whose answer
  is not an error status but lacks the expected payload, raise.)
\<close>

theorem cost_and_stats_absent:
  assumes "get_api_key w = Inr key"
      and "(\<exists>t. gateway w (stats_request key (LLMResponse.id r)) = Inl t) \<or>
           (\<exists>resp elapsed. gateway w (stats_request key (LLMResponse.id r)) = Inr (resp, elapsed) \<and>
              (status_code resp = 404 \<or> (400 \<le> status_code resp \<and> status_code resp < 600)))"
  shows "snd (cost_and_stats w r) = Inr None"
  using assms
  by (auto simp: cost_and_stats_def Let_def raise_for_status_def)

theorem cost_and_stats_absent_witness:
  "snd (cost_and_stats (keyed_world timing_out) response_gen1) = Inr None \<and>
   snd (cost_and_stats (keyed_world (answering not_found)) response_gen1) = Inr None \<and>
   snd (cost_and_stats (keyed_world (answering server_error)) response_gen1) = Inr None"
  using cost_and_stats_absent [of "keyed_world timing_out" "''sk-or-1''" response_gen1]
    cost_and_stats_absent [of "keyed_world (answering not_found)" "''sk-or-1''" response_gen1]
    cost_and_stats_absent [of "keyed_world (answering server_error)" "''sk-or-1''" response_gen1]
  by (simp add: timing_out_def answering_def not_found_def server_error_def)

text \<open>
  As stated, claim C3 fails: a 200 answer without the \<^verbatim>\<open>data\<close> key makes the lookup raise
  \<^verbatim>\<open>KeyError\<close>, and so does a missing credential with \<^verbatim>\<open>EnvironmentError\<close>.
\<close>

theorem cost_and_stats_raises_counterexample:
  "snd (cost_and_stats (keyed_world (answering stats_no_data)) response_gen1) =
     Inl (KeyError ''data'') \<and>
   snd (cost_and_stats (keyless_world (answering stats_ok)) response_gen1) =
     Inl (EnvironmentError
       ''API key environment variable not set -- see README.md for instructions'')"
  by (simp add: cost_and_stats_def answering_def stats_no_data_def raise_for_status_def
      response_json_def)

subsection \<open>The credential of a request\<close>




subsection \<open>Timeouts\<close>

text \<open>
  Claim C6, amended. Every request of a chat completion has the timeout 120 (seconds),
  every request of a statistics lookup and of the model catalog has the timeout 360: the
  bound of a chat completion is strictly shorter than that of the other two calls.
\<close>

theorem timeouts_of_calls:
  "(\<forall>q \<in> set (fst (chat_completion w m p u t mt)). timeout q = 120) \<and>
   (\<forall>q \<in> set (fst (cost_and_stats w r)). timeout q = 360) \<and>
   (\<forall>q \<in> set (fst (available_models parse w)). timeout q = 360) \<and>
   (\<forall>q \<in> set (fst (chat_completion w m p u t mt)).
      \<forall>q' \<in> set (fst (cost_and_stats w' r')) \<union> set (fst (available_models parse w')).
        timeout q < timeout q')"
  by (auto simp: chat_completion_requests cost_and_stats_requests available_models_requests
      chat_request_def stats_request_def models_request_def split: sum.splits)

theorem timeouts_of_calls_witness:
  "map timeout (fst (chat_completion (keyed_world timing_out) ''vendor/a'' ''p'' ''2+2=?'' 0 2048)) =
     [120] \<and>
   map timeout (fst (cost_and_stats (keyed_world timing_out) response_gen1)) = [360] \<and>
   map timeout (fst (available_models no_parse (keyed_world timing_out))) = [360]"
proof -
  note a = timeouts_of_calls [of "keyed_world timing_out" "''vendor/a''" "''p''" "''2+2=?''"
      0 2048 response_gen1 no_parse "keyed_world timing_out" response_gen1]
  have c1: "\<exists>q. fst (chat_completion (keyed_world timing_out) ''vendor/a'' ''p'' ''2+2=?'' 0 2048) = [q]"
    by (simp add: chat_completion_requests)
  have c3: "\<exists>q. fst (cost_and_stats (keyed_world timing_out) response_gen1) = [q]"
    by (simp add: cost_and_stats_requests)
  have c4: "\<exists>q. fst (available_models no_parse (keyed_world timing_out)) = [q]"
    by (simp add: available_models_requests)
  from a c1 c3 c4 show ?thesis by auto
qed

text \<open>
  As stated, claim C6 fails: the timeout of the chat request is not longer than the
  timeout of the statistics request or of the catalog request.
\<close>

theorem chat_timeout_shorter_counterexample:
  "fst (chat_completion (keyed_world (answering chat_ok)) ''vendor/a'' ''p'' ''2+2=?'' 0 2048) =
     [chat_request ''sk-or-1'' ''vendor/a'' ''p'' ''2+2=?'' 0 2048] \<and>
   fst (cost_and_stats (keyed_world (answering stats_ok)) response_gen1) =
     [stats_request ''sk-or-1'' ''gen-1''] \<and>
   fst (available_models no_parse (keyed_world (answering catalog_empty))) = [models_request] \<and>
   \<not> timeout (chat_request ''sk-or-1'' ''vendor/a'' ''p'' ''2+2=?'' 0 2048) >
       timeout (stats_request ''sk-or-1'' ''gen-1'') \<and>
   \<not> timeout (chat_request ''sk-or-1'' ''vendor/a'' ''p'' ''2+2=?'' 0 2048) >
       timeout models_request"
  by (simp add: chat_completion_requests cost_and_stats_requests available_models_requests
      chat_request_def stats_request_def models_request_def response_gen1_def)

subsection \<open>Keys and the collection loop\<close>

lemma Model_eq_iff: "Model_eq a b \<longleftrightarrow> a = b"
  by (auto simp: Model_eq_def fields_of_def intro: Model.equality)

lemma same_key_iff: "same_key h a b \<longleftrightarrow> a = b"
  by (auto simp: same_key_def Model_eq_iff)

lemma setitem_update: "setitem (same_key h) k v al = AList.update k v al"
  by (induction al) (auto simp: same_key_iff)

lemma result_Inl: "result r = Inl e \<longleftrightarrow> r = Inl e \<and> raised e"
  by (cases "(r :: error + 'a)" rule: result.cases) auto

lemma result_returns: "(\<exists>v. result r = Inr v) \<longleftrightarrow> \<not> raises r"
  by (cases "(r :: error + 'a)" rule: result.cases) (auto simp: raises_def)

lemma collect_requests: "fst (collect same fs acc) = shutdown fs"
proof (induction fs arbitrary: acc)
  case Nil
  then show ?case by (simp add: shutdown_def)
next
  case (Cons f fs)
  show ?case
  proof (cases "result (snd (snd f))")
    case (Inl e)
    then show ?thesis by (simp add: shutdown_def)
  next
    case (Inr v)
    obtain sent out where c: "collect same fs (setitem same (fst f) v acc) = (sent, out)"
      by (cases "collect same fs (setitem same (fst f) v acc)")
    with Cons.IH [of "setitem same (fst f) v acc"] have "sent = shutdown fs" by simp
    with c Inr show ?thesis by (simp add: shutdown_def)
  qed
qed

lemma collect_Cons_Inr:
  "result (snd (snd f)) = Inr v \<Longrightarrow>
     snd (collect same (f # fs) acc) = snd (collect same fs (setitem same (fst f) v acc))"
  by (simp split: prod.splits)

lemma collect_Cons_Inl:
  "result (snd (snd f)) = Inl e \<Longrightarrow> snd (collect same (f # fs) acc) = Inl e"
  by simp

lemma result_Inl_returned: "result (Inl e) = Inr v \<Longrightarrow> \<not> raised e"
  by (cases e) auto

lemma collect_raised_mem:
  "snd (collect same fs acc) = Inl e \<Longrightarrow> raised e \<and> (\<exists>f \<in> set fs. snd (snd f) = Inl e)"
proof (induction fs arbitrary: acc)
  case Nil
  then show ?case by simp
next
  case (Cons f fs)
  show ?case
  proof (cases "result (snd (snd f))")
    case (Inl e')
    with Cons.prems have "e' = e" by (simp add: collect_Cons_Inl del: collect.simps)
    with Inl show ?thesis by (simp add: result_Inl)
  next
    case (Inr v)
    with Cons.prems have "snd (collect same fs (setitem same (fst f) v acc)) = Inl e"
      by (simp add: collect_Cons_Inr del: collect.simps)
    from Cons.IH [OF this] show ?thesis by simp
  qed
qed

lemma collect_fails:
  "f \<in> set fs \<Longrightarrow> snd (snd f) = Inl e \<Longrightarrow> raised e
     \<Longrightarrow> \<exists>e'. snd (collect same fs acc) = Inl e'"
proof (induction fs arbitrary: acc)
  case Nil
  then show ?case by simp
next
  case (Cons g fs)
  show ?case
  proof (cases "result (snd (snd g))")
    case (Inl e')
    then show ?thesis by (simp add: collect_Cons_Inl del: collect.simps)
  next
    case (Inr v)
    with Cons.prems have "f \<in> set fs" by (auto dest: result_Inl_returned)
    from Cons.IH [OF this Cons.prems(2,3)] Inr show ?thesis
      by (simp add: collect_Cons_Inr del: collect.simps)
  qed
qed

lemma collect_succeeds:
  "\<forall>f \<in> set fs. \<not> raises (snd (snd f)) \<Longrightarrow> \<exists>d. snd (collect same fs acc) = Inr d"
proof (induction fs arbitrary: acc)
  case Nil
  then show ?case by simp
next
  case (Cons f fs)
  from Cons.prems have "\<not> raises (snd (snd f))" by simp
  then obtain v where v: "result (snd (snd f)) = Inr v"
    using result_returns by blast
  from Cons.prems have "\<forall>g \<in> set fs. \<not> raises (snd (snd g))" by simp
  from Cons.IH [OF this] v show ?case by (simp add: collect_Cons_Inr del: collect.simps)
qed

lemma collect_returns_all:
  "snd (collect same fs acc) = Inr d \<Longrightarrow> \<forall>f \<in> set fs. \<not> raises (snd (snd f))"
proof (induction fs arbitrary: acc)
  case Nil
  then show ?case by simp
next
  case (Cons f fs)
  show ?case
  proof (cases "result (snd (snd f))")
    case (Inl e)
    with Cons.prems show ?thesis by (simp add: collect_Cons_Inl del: collect.simps)
  next
    case (Inr v)
    with Cons.prems have "snd (collect same fs (setitem same (fst f) v acc)) = Inr d"
      by (simp add: collect_Cons_Inr del: collect.simps)
    from Cons.IH [OF this] Inr result_returns [of "snd (snd f)"] show ?thesis by auto
  qed
qed

lemma collect_keys:
  "snd (collect (same_key h) fs acc) = Inr d \<Longrightarrow> fst ` set d = fst ` set acc \<union> fst ` set fs"
proof (induction fs arbitrary: acc)
  case Nil
  then show ?case by simp
next
  case (Cons f fs)
  show ?case
  proof (cases "result (snd (snd f))")
    case (Inl e)
    with Cons.prems show ?thesis by (simp add: collect_Cons_Inl del: collect.simps)
  next
    case (Inr v)
    with Cons.prems have "snd (collect (same_key h) fs (AList.update (fst f) v acc)) = Inr d"
      by (simp add: collect_Cons_Inr setitem_update del: collect.simps)
    from Cons.IH [OF this] show ?thesis by (auto simp: AList.dom_update)
  qed
qed

lemma collect_distinct:
  "snd (collect (same_key h) fs acc) = Inr d \<Longrightarrow> distinct (map fst acc)
     \<Longrightarrow> distinct (map fst d)"
proof (induction fs arbitrary: acc)
  case Nil
  then show ?case by simp
next
  case (Cons f fs)
  show ?case
  proof (cases "result (snd (snd f))")
    case (Inl e)
    with Cons.prems show ?thesis by (simp add: collect_Cons_Inl del: collect.simps)
  next
    case (Inr v)
    with Cons.prems have "snd (collect (same_key h) fs (AList.update (fst f) v acc)) = Inr d"
      by (simp add: collect_Cons_Inr setitem_update del: collect.simps)
    moreover from Cons.prems have "distinct (map fst (AList.update (fst f) v acc))"
      by (simp add: AList.distinct_update)
    ultimately show ?thesis by (rule Cons.IH)
  qed
qed

subsection \<open>The futures of a batch\<close>

lemma enumerate_nth: "enumerate 0 xs = map (\<lambda>i. (i, xs ! i)) [0..<length xs]"
  by (rule nth_equalityI) (simp_all add: nth_enumerate_eq)

lemma chat_futures:
  "submit_chat ws models p u t mt =
     map (\<lambda>i. (models ! i, chat_completion (ws i) (Model.id (models ! i)) p u t mt))
       [0..<length models]"
  by (simp add: submit_chat_def enumerate_nth)

lemma keys_chat_futures: "fst ` set (submit_chat ws models p u t mt) = set models"
proof -
  have "map fst (submit_chat ws models p u t mt) = models"
    unfolding chat_futures by (rule nth_equalityI) simp_all
  then have "set (map fst (submit_chat ws models p u t mt)) = set models"
    by simp
  then show ?thesis by (simp only: set_map)
qed

lemma completed_set:
  assumes "\<And>fs. mset (as_completed fs) = mset fs"
  shows "set (as_completed fs) = set fs"
  using assms [of fs] by (rule mset_eq_setD)

lemma sum_list_image_mset:
  "sum_list (map g xs) = sum_mset (image_mset g (mset xs))"
  by (induction xs) simp_all

lemma mset_concat_map:
  assumes "mset xs = mset ys"
  shows "mset (concat (map f xs)) = mset (concat (map f ys))"
proof -
  have "mset (concat (map f zs)) = sum_mset (image_mset (\<lambda>x. mset (f x)) (mset zs))" for zs
    by (simp add: mset_concat comp_def sum_list_image_mset)
  with assms show ?thesis by simp
qed

lemma multiple_result:
  "chat_completion_multiple ws as_completed h models p u t mt =
     collect (same_key h) (as_completed (submit_chat ws models p u t mt)) []"
  by (simp add: chat_completion_multiple_def)

lemma multiple_requests:
  assumes "\<And>fs. mset (as_completed fs) = mset fs"
  shows "mset (fst (chat_completion_multiple ws as_completed h models p u t mt)) =
           mset (concat (map (\<lambda>i. fst (chat_completion (ws i) (Model.id (models ! i)) p u t mt))
                   [0..<length models]))"
proof -
  have "mset (shutdown (as_completed (submit_chat ws models p u t mt))) =
      mset (shutdown (submit_chat ws models p u t mt))"
    unfolding shutdown_def using assms by (rule mset_concat_map)
  then show ?thesis
    by (simp add: multiple_result collect_requests)
      (simp add: shutdown_def chat_futures comp_def)
qed

subsection \<open>Concrete batches\<close>

lemma str_int_500: "str_int 500 = ''500''"
  by (simp add: str_int_def digits_of.simps)

lemma second_fails_simps:
  "second_fails 0 = keyed_world (answering chat_ok)"
  "second_fails (Suc 0) = keyed_world (answering server_error)"
  "second_fails (Suc (Suc n)) = keyed_world (answering chat_ok)"
  by (simp_all add: second_fails_def)

lemma second_times_out_simps:
  "second_times_out 0 = keyed_world (answering chat_ok)"
  "second_times_out (Suc 0) = keyed_world timing_out"
  "second_times_out (Suc (Suc n)) = keyed_world (answering chat_ok)"
  by (simp_all add: second_times_out_def)

lemma second_null_simps:
  "second_null 0 = keyed_world (answering chat_ok)"
  "second_null (Suc 0) = keyed_world (answering chat_ok_null)"
  "second_null (Suc (Suc n)) = keyed_world (answering chat_ok)"
  by (simp_all add: second_null_def)

lemma null_then_timeout_simps:
  "null_then_timeout 0 = keyed_world (answering chat_ok_null)"
  "null_then_timeout (Suc n) = keyed_world timing_out"
  by (simp_all add: null_then_timeout_def)

lemma second_keyless_simps:
  "second_keyless 0 = keyed_world (answering chat_ok)"
  "second_keyless (Suc 0) = keyless_world (answering chat_ok)"
  "second_keyless (Suc (Suc n)) = keyed_world (answering chat_ok)"
  by (simp_all add: second_keyless_def)

lemma chat_plain:
  "\<exists>r. chat_completion (keyed_world (answering chat_ok)) m p u t mt =
         ([chat_request ''sk-or-1'' m p u t mt], Inr r)"
  by (simp add: chat_completion_def answering_def chat_ok_def chat_body_plain_def
      response_json_def chat_response_def)

lemma chat_server_error:
  "chat_completion (keyed_world (answering server_error)) m p u t mt =
     ([chat_request ''sk-or-1'' m p u t mt],
      Inl (HTTPError (m @ [CHR 0x0A] @ ''HTTP error 500 - Internal Server Error'') server_error))"
  by (simp add: chat_completion_def answering_def server_error_def exception_text_def
      str_int_500)

lemma chat_timing_out:
  "chat_completion (keyed_world timing_out) m p u t mt =
     ([chat_request ''sk-or-1'' m p u t mt], Inl (RequestException Timeout))"
  by (simp add: chat_completion_def timing_out_def)

lemma chat_null_content:
  "chat_completion (keyed_world (answering chat_ok_null)) m p u t mt =
     ([chat_request ''sk-or-1'' m p u t mt], Inl (IllTyped ''response''))"
  by (simp add: chat_completion_def answering_def chat_ok_null_def chat_body_null_def
      response_json_def chat_response_def)

lemma chat_keyless:
  "chat_completion (keyless_world gw) m p u t mt =
     ([], Inl (EnvironmentError
            ''API key environment variable not set -- see README.md for instructions''))"
  by (simp add: chat_completion_def)

lemma models_differ:
  "model_a \<noteq> model_b" "model_a \<noteq> model_c" "model_b \<noteq> model_c"
  "model_a \<noteq> model_a_repriced" "model_a_repriced \<noteq> model_c"
  by (simp_all add: model_a_def model_b_def model_c_def model_a_repriced_def)

text \<open>
  Of two models the second is answered with a content of \<^verbatim>\<open>null\<close>: both tasks return,
  and the batch returns both entries.
\<close>

lemma batch_with_null_content:
  "\<exists>r. snd (chat_completion_multiple second_null submission_order flat_hash
           [model_a, model_b] ''p'' ''2+2=?'' 0 2048) =
         Inr [(model_a, Object r), (model_b, IllTypedObject ''response'')]"
proof -
  obtain r where "chat_completion (keyed_world (answering chat_ok)) (Model.id model_a)
      ''p'' ''2+2=?'' 0 2048 =
      ([chat_request ''sk-or-1'' (Model.id model_a) ''p'' ''2+2=?'' 0 2048], Inr r)"
    using chat_plain by blast
  then show ?thesis
    by (simp add: chat_completion_multiple_def submit_chat_def submission_order_def
        second_null_simps chat_null_content same_key_iff models_differ)
qed

text \<open>
  The first task returns such an object and the second times out: the batch raises the
  second task's exception.
\<close>

lemma batch_null_then_timeout:
  "snd (chat_completion_multiple null_then_timeout submission_order flat_hash
          [model_a, model_b] ''p'' ''2+2=?'' 0 2048) = Inl (RequestException Timeout)"
  by (simp add: chat_completion_multiple_def submit_chat_def submission_order_def
      null_then_timeout_simps chat_null_content chat_timing_out)

text \<open>The second task finds no credential: its sibling's request is sent, and no other.\<close>

lemma batch_second_keyless:
  "chat_completion_multiple second_keyless submission_order flat_hash
     [model_a, model_b] ''p'' ''2+2=?'' 0 2048 =
     ([chat_request ''sk-or-1'' (Model.id model_a) ''p'' ''2+2=?'' 0 2048],
      Inl (EnvironmentError
             ''API key environment variable not set -- see README.md for instructions''))"
proof -
  obtain r where "chat_completion (keyed_world (answering chat_ok)) (Model.id model_a)
      ''p'' ''2+2=?'' 0 2048 =
      ([chat_request ''sk-or-1'' (Model.id model_a) ''p'' ''2+2=?'' 0 2048], Inr r)"
    using chat_plain by blast
  then show ?thesis
    by (simp add: chat_completion_multiple_def submit_chat_def submission_order_def
        second_keyless_simps chat_keyless shutdown_def)
qed

subsection \<open>One failing model\<close>

text \<open>
  Claim C1, amended. For every list of models where at least one model's chat call
  raises, \<^verbatim>\<open>chat_completion_multiple\<close> returns no mapping: it raises the exception of
  one of the calls that raised, and the results of the models that succeeded are lost
  with it; there are no failure entries. The sibling tasks are not cancelled: when the
  exception reaches the caller the requests that have been sent are exactly those of all
  the tasks, among them the request of every model whose call found a credential.
\<close>

theorem one_failure_raises:
  assumes "\<And>fs. mset (as_completed fs) = mset fs"
      and "i < length models"
      and "snd (chat_completion (ws i) (Model.id (models ! i)) p u t mt) = Inl e"
      and "raised e"
  shows "(\<exists>e' j. j < length models \<and> raised e' \<and>
            snd (chat_completion (ws j) (Model.id (models ! j)) p u t mt) = Inl e' \<and>
            snd (chat_completion_multiple ws as_completed h models p u t mt) = Inl e') \<and>
         mset (fst (chat_completion_multiple ws as_completed h models p u t mt)) =
           mset (concat (map (\<lambda>j. fst (chat_completion (ws j) (Model.id (models ! j)) p u t mt))
                   [0..<length models])) \<and>
         (\<forall>j < length models. \<forall>key. get_api_key (ws j) = Inr key \<longrightarrow>
            chat_request key (Model.id (models ! j)) p u t mt
              \<in> set (fst (chat_completion_multiple ws as_completed h models p u t mt)))"
proof (intro conjI)
  let ?task = "\<lambda>j. chat_completion (ws j) (Model.id (models ! j)) p u t mt"
  let ?fs = "submit_chat ws models p u t mt"
  have fs: "?fs = map (\<lambda>j. (models ! j, ?task j)) [0..<length models]"
    by (rule chat_futures)
  have same: "set (as_completed ?fs) = set ?fs"
    using assms(1) by (rule completed_set)
  from assms(2) have "(models ! i, ?task i) \<in> set ?fs"
    unfolding fs by (auto simp: image_iff intro!: bexI [of _ i])
  with same have "(models ! i, ?task i) \<in> set (as_completed ?fs)" by simp
  moreover from assms(3) have "snd (snd (models ! i, ?task i)) = Inl e" by simp
  ultimately have "\<exists>e'. snd (collect (same_key h) (as_completed ?fs) []) = Inl e'"
    using assms(4) by (rule collect_fails)
  then obtain e' where e': "snd (collect (same_key h) (as_completed ?fs) []) = Inl e'" ..
  from collect_raised_mem [OF e'] obtain f where "raised e'"
    and "f \<in> set (as_completed ?fs)" and "snd (snd f) = Inl e'"
    by blast
  with same have "f \<in> set ?fs" by simp
  then obtain j where "j < length models" and "f = (models ! j, ?task j)"
    unfolding fs by auto
  with \<open>snd (snd f) = Inl e'\<close> \<open>raised e'\<close> e'
  show "\<exists>e' j. j < length models \<and> raised e' \<and> snd (?task j) = Inl e' \<and>
      snd (chat_completion_multiple ws as_completed h models p u t mt) = Inl e'"
    unfolding multiple_result by auto
next
  show sent: "mset (fst (chat_completion_multiple ws as_completed h models p u t mt)) =
      mset (concat (map (\<lambda>j. fst (chat_completion (ws j) (Model.id (models ! j)) p u t mt))
              [0..<length models]))"
    using assms(1) by (rule multiple_requests)
  show "\<forall>j < length models. \<forall>key. get_api_key (ws j) = Inr key \<longrightarrow>
      chat_request key (Model.id (models ! j)) p u t mt
        \<in> set (fst (chat_completion_multiple ws as_completed h models p u t mt))"
  proof (intro allI impI)
    fix j key
    assume j: "j < length models" and key: "get_api_key (ws j) = Inr key"
    from key have "fst (chat_completion (ws j) (Model.id (models ! j)) p u t mt) =
        [chat_request key (Model.id (models ! j)) p u t mt]"
      by (simp add: chat_completion_requests)
    with j have "chat_request key (Model.id (models ! j)) p u t mt
        \<in> set (concat (map (\<lambda>j. fst (chat_completion (ws j) (Model.id (models ! j)) p u t mt))
                [0..<length models]))"
      by (auto intro!: bexI [of _ j])
    with mset_eq_setD [OF sent]
    show "chat_request key (Model.id (models ! j)) p u t mt
        \<in> set (fst (chat_completion_multiple ws as_completed h models p u t mt))"
      by simp
  qed
qed

theorem one_failure_raises_witness:
  "(\<exists>e'. snd (chat_completion_multiple second_fails rev flat_hash [model_a, model_b, model_c]
            ''p'' ''2+2=?'' 0 2048) = Inl e') \<and>
   chat_request ''sk-or-1'' ''vendor/a'' ''p'' ''2+2=?'' 0 2048
     \<in> set (fst (chat_completion_multiple second_fails rev flat_hash
                 [model_a, model_b, model_c] ''p'' ''2+2=?'' 0 2048))"
proof -
  have fails: "snd (chat_completion (second_fails 1) (Model.id ([model_a, model_b, model_c] ! 1))
          ''p'' ''2+2=?'' 0 2048) =
        Inl (HTTPError (''vendor/b'' @ [CHR 0x0A] @ ''HTTP error 500 - Internal Server Error'')
               server_error)"
    by (simp add: second_fails_simps chat_server_error model_b_def)
  have perm: "mset (rev fs) = mset fs" for fs :: "(Model \<times> LLMResponse io) list"
    by simp
  have exc: "raised (HTTPError (''vendor/b'' @ [CHR 0x0A] @
      ''HTTP error 500 - Internal Server Error'') server_error)"
    by simp
  note all = one_failure_raises [where as_completed = rev and i = 1
      and models = "[model_a, model_b, model_c]" and ws = second_fails and h = flat_hash,
      OF perm _ fails exc]
  have first: "get_api_key (second_fails 0) = Inr ''sk-or-1''"
    and "Model.id ([model_a, model_b, model_c] ! 0) = ''vendor/a''"
    by (simp_all add: second_fails_simps model_a_def)
  with all show ?thesis by fastforce
qed

text \<open>
  As stated, claim C1 fails: of three models the second times out and the other two
  answer, and the batch returns no mapping but raises the second model's exception.
\<close>

theorem failure_isolation_counterexample:
  "\<not> raises (snd (chat_completion (second_times_out 0) (Model.id model_a) ''p'' ''2+2=?'' 0 2048)) \<and>
   snd (chat_completion (second_times_out 1) (Model.id model_b) ''p'' ''2+2=?'' 0 2048) =
     Inl (RequestException Timeout) \<and>
   \<not> raises (snd (chat_completion (second_times_out 2) (Model.id model_c) ''p'' ''2+2=?'' 0 2048)) \<and>
   snd (chat_completion_multiple second_times_out rev flat_hash [model_a, model_b, model_c]
          ''p'' ''2+2=?'' 0 2048) = Inl (RequestException Timeout)"
proof -
  obtain r where r: "chat_completion (keyed_world (answering chat_ok)) (Model.id model_c)
      ''p'' ''2+2=?'' 0 2048 =
      ([chat_request ''sk-or-1'' (Model.id model_c) ''p'' ''2+2=?'' 0 2048], Inr r)"
    using chat_plain by blast
  obtain r' where r': "chat_completion (keyed_world (answering chat_ok)) (Model.id model_a)
      ''p'' ''2+2=?'' 0 2048 =
      ([chat_request ''sk-or-1'' (Model.id model_a) ''p'' ''2+2=?'' 0 2048], Inr r')"
    using chat_plain by blast
  from r have "snd (chat_completion_multiple second_times_out rev flat_hash
      [model_a, model_b, model_c] ''p'' ''2+2=?'' 0 2048) = Inl (RequestException Timeout)"
    by (simp add: chat_completion_multiple_def submit_chat_def second_times_out_simps
        chat_timing_out)
  moreover have "second_times_out 1 = keyed_world timing_out"
    and "second_times_out 2 = keyed_world (answering chat_ok)"
    by (simp_all add: second_times_out_def)
  ultimately show ?thesis
    using r r' by (simp add: second_times_out_simps chat_timing_out raises_def)
qed

subsection \<open>The keys of the result\<close>

lemma multiple_returns:
  assumes "\<And>fs. mset (as_completed fs) = mset fs"
      and "\<forall>i < length models.
             \<not> raises (snd (chat_completion (ws i) (Model.id (models ! i)) p u t mt))"
  shows "\<exists>d. snd (chat_completion_multiple ws as_completed h models p u t mt) = Inr d"
proof -
  let ?fs = "submit_chat ws models p u t mt"
  have "set (as_completed ?fs) = set ?fs"
    using assms(1) by (rule completed_set)
  moreover from assms(2) have "\<forall>f \<in> set ?fs. \<not> raises (snd (snd f))"
    unfolding chat_futures by auto
  ultimately have "\<forall>f \<in> set (as_completed ?fs). \<not> raises (snd (snd f))" by simp
  then have "\<exists>d. snd (collect (same_key h) (as_completed ?fs) []) = Inr d"
    by (rule collect_succeeds)
  then show ?thesis by (simp only: multiple_result)
qed

lemma multiple_keys:
  assumes "\<And>fs. mset (as_completed fs) = mset fs"
      and "snd (chat_completion_multiple ws as_completed h models p u t mt) = Inr d"
  shows "fst ` set d = set models" and "distinct (map fst d)"
    and "length d = card (set models)"
proof -
  let ?fs = "submit_chat ws models p u t mt"
  have same: "set (as_completed ?fs) = set ?fs"
    using assms(1) by (rule completed_set)
  from assms(2) have d: "snd (collect (same_key h) (as_completed ?fs) []) = Inr d"
    by (simp only: multiple_result)
  from collect_keys [OF d] same show keys: "fst ` set d = set models"
    by (simp add: keys_chat_futures)
  show dist: "distinct (map fst d)"
    using collect_distinct [OF d] by simp
  have "length d = length (map fst d)" by simp
  also have "\<dots> = card (set (map fst d))"
    using dist by (simp only: distinct_card)
  also have "\<dots> = card (set models)"
    using keys by simp
  finally show "length d = card (set models)" .
qed

lemma multiple_returns_only_if:
  assumes "\<And>fs. mset (as_completed fs) = mset fs"
      and "snd (chat_completion_multiple ws as_completed h models p u t mt) = Inr d"
      and "i < length models"
  shows "\<not> raises (snd (chat_completion (ws i) (Model.id (models ! i)) p u t mt))"
proof -
  let ?fs = "submit_chat ws models p u t mt"
  have same: "set (as_completed ?fs) = set ?fs"
    using assms(1) by (rule completed_set)
  from assms(2) have "snd (collect (same_key h) (as_completed ?fs) []) = Inr d"
    by (simp only: multiple_result)
  then have "\<forall>f \<in> set (as_completed ?fs). \<not> raises (snd (snd f))"
    by (rule collect_returns_all)
  with same have all: "\<forall>f \<in> set ?fs. \<not> raises (snd (snd f))" by simp
  from assms(3) have "(models ! i, chat_completion (ws i) (Model.id (models ! i)) p u t mt)
      \<in> set ?fs"
    unfolding chat_futures by (auto simp: image_iff intro!: bexI [of _ i])
  with all show ?thesis by fastforce
qed

text \<open>
  Claim C2, amended. For every list of distinct models none of whose chat calls raises,
  \<^verbatim>\<open>chat_completion_multiple\<close> returns a mapping whose key set is exactly the set of the
  input models, with exactly one entry per input model.
\<close>

theorem keys_when_all_return:
  assumes "\<And>fs. mset (as_completed fs) = mset fs"
      and "distinct models"
      and "\<forall>i < length models.
             \<not> raises (snd (chat_completion (ws i) (Model.id (models ! i)) p u t mt))"
  shows "\<exists>d. snd (chat_completion_multiple ws as_completed h models p u t mt) = Inr d \<and>
           fst ` set d = set models \<and> distinct (map fst d) \<and> length d = length models"
proof -
  from multiple_returns [OF assms(1,3)] obtain d
    where d: "snd (chat_completion_multiple ws as_completed h models p u t mt) = Inr d" ..
  note keys = multiple_keys [OF assms(1) d]
  from keys(3) assms(2) have "length d = length models"
    by (simp add: distinct_card)
  with d keys(1,2) show ?thesis by blast
qed

lemma second_null_returns:
  "\<not> raises (snd (chat_completion (second_null i) m p u t mt))"
proof (cases "i = 1")
  case True
  then show ?thesis by (simp add: second_null_def chat_null_content raises_def)
next
  case False
  obtain r where "chat_completion (keyed_world (answering chat_ok)) m p u t mt =
      ([chat_request ''sk-or-1'' m p u t mt], Inr r)"
    using chat_plain by blast
  with False show ?thesis by (simp add: second_null_def raises_def)
qed

theorem keys_when_all_return_witness:
  "\<exists>d. snd (chat_completion_multiple second_null rev flat_hash [model_a, model_b, model_c]
          ''p'' ''2+2=?'' 0 2048) = Inr d \<and>
       fst ` set d = {model_a, model_b, model_c} \<and> length d = 3"
proof -
  have perm: "mset (rev fs) = mset fs" for fs :: "(Model \<times> LLMResponse io) list"
    by simp
  have "distinct [model_a, model_b, model_c]"
    by (simp add: models_differ)
  from keys_when_all_return [where as_completed = rev and models = "[model_a, model_b, model_c]"
      and ws = second_null and p = "''p''" and u = "''2+2=?''" and t = 0 and mt = 2048
      and h = flat_hash, OF perm this]
  have "\<exists>d. snd (chat_completion_multiple second_null rev flat_hash [model_a, model_b, model_c]
          ''p'' ''2+2=?'' 0 2048) = Inr d \<and>
       fst ` set d = set [model_a, model_b, model_c] \<and> distinct (map fst d) \<and>
       length d = length [model_a, model_b, model_c]"
    by (simp add: second_null_returns)
  then show ?thesis by auto
qed

text \<open>
  As stated, claim C2 fails: of two distinct models the second is answered with status
  500, and the batch returns no mapping.
\<close>

theorem key_set_counterexample:
  "[model_a, model_b] \<noteq> [] \<and> distinct [model_a, model_b] \<and>
   snd (chat_completion_multiple second_fails submission_order flat_hash [model_a, model_b]
          ''p'' ''2+2=?'' 0 2048) =
     Inl (HTTPError (''vendor/b'' @ [CHR 0x0A] @ ''HTTP error 500 - Internal Server Error'')
            server_error)"
proof -
  obtain r where
    "chat_completion (keyed_world (answering chat_ok)) (Model.id model_a) ''p'' ''2+2=?'' 0 2048 =
       ([chat_request ''sk-or-1'' (Model.id model_a) ''p'' ''2+2=?'' 0 2048], Inr r)"
    using chat_plain by blast
  moreover have "Model.id model_b = ''vendor/b''"
    by (simp add: model_b_def)
  ultimately have "snd (chat_completion_multiple second_fails submission_order flat_hash
      [model_a, model_b] ''p'' ''2+2=?'' 0 2048) =
     Inl (HTTPError (''vendor/b'' @ [CHR 0x0A] @ ''HTTP error 500 - Internal Server Error'')
            server_error)"
    by (simp add: chat_completion_multiple_def submit_chat_def submission_order_def
        second_fails_simps chat_server_error)
  then show ?thesis by (simp add: models_differ)
qed

subsection \<open>Models as keys\<close>

lemma Model_eq_fields:
  "Model_eq a b \<longleftrightarrow>
     Model.id a = Model.id b \<and> name a = name b \<and>
     pricing_prompt a = pricing_prompt b \<and> pricing_completion a = pricing_completion b \<and>
     context_length a = context_length b \<and>
     max_completion_tokens a = max_completion_tokens b \<and>
     tokenizer a = tokenizer b \<and> instruct_type a = instruct_type b"
  by (simp add: Model_eq_def fields_of_def)

lemma same_key_Model_eq: "same_key h a b \<longleftrightarrow> Model_eq a b"
  by (auto simp: same_key_def Model_eq_def Model_hash_def)

text \<open>
  Claim C7, amended. For map-keying purposes two \<^verbatim>\<open>Model\<close> values are the same key
  exactly when they are equal, and they are equal exactly when all eight fields are equal;
  the hash is taken of all eight fields and never decides otherwise. When
  \<^verbatim>\<open>chat_completion_multiple\<close> returns a mapping, its keys are the input models, one entry
  for each different \<^verbatim>\<open>Model\<close> value: two input models with the same identifier and
  different pricing are different keys, each with its own entry. The mapping is keyed by
  the full \<^verbatim>\<open>Model\<close> value, not by the identifier string.
\<close>

theorem results_keyed_by_whole_model:
  assumes "\<And>fs. mset (as_completed fs) = mset fs"
      and "snd (chat_completion_multiple ws as_completed h models p u t mt) = Inr d"
  shows "fst ` set d = set models \<and> distinct (map fst d) \<and> length d = card (set models) \<and>
         (\<forall>a \<in> set models. \<forall>b \<in> set models.
            Model.id a = Model.id b \<and> pricing_prompt a \<noteq> pricing_prompt b
              \<longrightarrow> \<not> same_key h a b \<and> a \<noteq> b \<and>
                  map_of d a \<noteq> None \<and> map_of d b \<noteq> None) \<and>
         (\<forall>a b. same_key h a b \<longleftrightarrow> Model_eq a b) \<and>
         (\<forall>a b. Model_eq a b \<longleftrightarrow>
            Model.id a = Model.id b \<and> name a = name b \<and>
            pricing_prompt a = pricing_prompt b \<and>
            pricing_completion a = pricing_completion b \<and>
            context_length a = context_length b \<and>
            max_completion_tokens a = max_completion_tokens b \<and>
            tokenizer a = tokenizer b \<and> instruct_type a = instruct_type b)"
proof -
  note keys = multiple_keys [OF assms]
  have found: "map_of d a \<noteq> None" if "a \<in> set models" for a
  proof -
    from that keys(1) have "a \<in> fst ` set d" by simp
    then show ?thesis by (simp add: map_of_eq_None_iff)
  qed
  have apart: "\<not> same_key h a b \<and> a \<noteq> b \<and> map_of d a \<noteq> None \<and> map_of d b \<noteq> None"
    if "a \<in> set models" and "b \<in> set models"
      and "Model.id a = Model.id b \<and> pricing_prompt a \<noteq> pricing_prompt b" for a b
  proof -
    from that(3) have "a \<noteq> b" by auto
    then have "\<not> same_key h a b" by (simp add: same_key_iff)
    with \<open>a \<noteq> b\<close> found [OF that(1)] found [OF that(2)] show ?thesis by simp
  qed
  have c4: "\<forall>a \<in> set models. \<forall>b \<in> set models.
      Model.id a = Model.id b \<and> pricing_prompt a \<noteq> pricing_prompt b
        \<longrightarrow> \<not> same_key h a b \<and> a \<noteq> b \<and> map_of d a \<noteq> None \<and> map_of d b \<noteq> None"
    using apart by blast
  have c5: "\<forall>a b. same_key h a b \<longleftrightarrow> Model_eq a b"
    using same_key_Model_eq by blast
  have c6: "\<forall>a b. Model_eq a b \<longleftrightarrow>
      Model.id a = Model.id b \<and> name a = name b \<and>
      pricing_prompt a = pricing_prompt b \<and>
      pricing_completion a = pricing_completion b \<and>
      context_length a = context_length b \<and>
      max_completion_tokens a = max_completion_tokens b \<and>
      tokenizer a = tokenizer b \<and> instruct_type a = instruct_type b"
    using Model_eq_fields by blast
  show ?thesis
    using keys(1) keys(2) keys(3) c4 c5 c6 by (intro conjI)
qed

theorem results_keyed_by_whole_model_witness:
  "\<exists>d. snd (chat_completion_multiple second_null rev id_length_hash
          [model_a, model_a_repriced, model_c] ''p'' ''2+2=?'' 0 2048) = Inr d \<and>
       map_of d model_a \<noteq> None \<and> map_of d model_a_repriced \<noteq> None \<and> length d = 3"
proof -
  have perm: "mset (rev fs) = mset fs" for fs :: "(Model \<times> LLMResponse io) list"
    by simp
  have "\<exists>d. snd (chat_completion_multiple second_null rev id_length_hash
          [model_a, model_a_repriced, model_c] ''p'' ''2+2=?'' 0 2048) = Inr d"
    by (rule multiple_returns [OF perm]) (simp add: second_null_returns)
  then obtain d where d: "snd (chat_completion_multiple second_null rev id_length_hash
      [model_a, model_a_repriced, model_c] ''p'' ''2+2=?'' 0 2048) = Inr d" ..
  have three: "card (set [model_a, model_a_repriced, model_c]) = 3"
    by (simp add: models_differ)
  have same: "Model.id model_a = Model.id model_a_repriced \<and>
      pricing_prompt model_a \<noteq> pricing_prompt model_a_repriced"
    by (simp add: model_a_def model_a_repriced_def)
  note all = results_keyed_by_whole_model [OF perm d]
  from all have "length d = card (set [model_a, model_a_repriced, model_c])"
    by (elim conjE)
  with three have len: "length d = 3" by (simp only:)
  from all have "\<forall>a \<in> set [model_a, model_a_repriced, model_c].
      \<forall>b \<in> set [model_a, model_a_repriced, model_c].
        Model.id a = Model.id b \<and> pricing_prompt a \<noteq> pricing_prompt b
          \<longrightarrow> \<not> same_key id_length_hash a b \<and> a \<noteq> b \<and>
              map_of d a \<noteq> None \<and> map_of d b \<noteq> None"
    by (elim conjE)
  with same have "map_of d model_a \<noteq> None \<and> map_of d model_a_repriced \<noteq> None"
    by simp
  with d len show ?thesis by blast
qed

text \<open>
  As stated, claim C7 fails: two models with one identifier and two prices are two keys
  of the result, also under a hash that reads the identifier alone, and the keys are the
  models, not their identifiers.
\<close>

theorem same_identifier_two_keys_counterexample:
  "Model.id model_a = Model.id model_a_repriced \<and>
   pricing_prompt model_a \<noteq> pricing_prompt model_a_repriced \<and>
   Model_hash id_length_hash model_a = Model_hash id_length_hash model_a_repriced \<and>
   \<not> Model_eq model_a model_a_repriced \<and>
   keys_of (snd (chat_completion_multiple all_answer rev id_length_hash
                   [model_a, model_a_repriced] ''p'' ''2+2=?'' 0 2048)) =
     Inr [model_a_repriced, model_a]"
proof -
  obtain r where
    "chat_completion (keyed_world (answering chat_ok)) ''vendor/a'' ''p'' ''2+2=?'' 0 2048 =
       ([chat_request ''sk-or-1'' ''vendor/a'' ''p'' ''2+2=?'' 0 2048], Inr r)"
    using chat_plain by blast
  moreover have "Model.id model_a = ''vendor/a''" and "Model.id model_a_repriced = ''vendor/a''"
    by (simp_all add: model_a_def model_a_repriced_def)
  ultimately have "keys_of (snd (chat_completion_multiple all_answer rev id_length_hash
      [model_a, model_a_repriced] ''p'' ''2+2=?'' 0 2048)) = Inr [model_a_repriced, model_a]"
    using models_differ(4)
    by (simp add: chat_completion_multiple_def submit_chat_def all_answer_def keys_of_def
        same_key_iff)
  then show ?thesis
    by (simp add: model_a_def model_a_repriced_def Model_eq_fields Model_hash_def
        fields_of_def id_length_hash_def)
qed

section \<open>The operations on concrete answers\<close>

lemma chat_with_finish_reason:
  "snd (chat_completion (keyed_world (answering chat_ok_stop)) ''vendor/a'' ''p'' ''2+2=?'' 0 2048) =
     Inr \<lparr>LLMResponse.id = ''gen-2'', model = ''vendor/a'', prompt = ''p'',
          user_input = ''2+2=?'', response = ''four'', finish_reason = ''stop'',
          raw_request = chat_payload ''vendor/a'' ''p'' ''2+2=?'' 0 2048,
          LLMResponse.raw_response = chat_body_stop, LLMResponse.elapsed_time = 2\<rparr>"
  by (simp add: chat_completion_def answering_def chat_ok_stop_def chat_body_stop_def
      response_json_def chat_response_def)

lemma catalog_of_one_model:
  "snd (available_models parse_prices (keyed_world (answering catalog_one))) =
     Inr [\<lparr>Model.id = ''vendor/a'', name = ''A'', pricing_prompt = 0.5,
           pricing_completion = 1.5, context_length = 4096, max_completion_tokens = 0,
           tokenizer = ''GPT'', instruct_type = ''none''\<rparr>]"
  by (simp add: available_models_def answering_def catalog_one_def catalog_item_def
      raise_for_status_def response_json_def item_fields_def typed_model_def parse_prices_def)

lemma catalog_server_error:
  "\<exists>text. snd (available_models to_float (keyed_world (answering server_error))) =
     Inl (HTTPError text server_error)"
  by (simp add: available_models_def answering_def server_error_def raise_for_status_def)

lemma stats_of_a_batch:
  "snd (cost_and_stats_multiple (\<lambda>i. keyed_world (answering not_found)) rev flat_hash
          [(model_a, response_gen1), (model_b, response_gen1)]) =
     Inr [(model_b, Object None), (model_a, Object None)]"
  by (simp add: cost_and_stats_multiple_def submit_stats_def cost_and_stats_def answering_def
      not_found_def same_key_iff models_differ models_differ [symmetric])

end
